theory Spec2Isabelle
  imports Main
begin

section \<open>The video-create route: data model\<close>

text \<open>
  The route file \<^verbatim>\<open>apps/web/app/api/desktop/video/create/route.ts\<close> exports two
  handlers, \<^verbatim>\<open>OPTIONS\<close> and \<^verbatim>\<open>GET\<close>. Everything they read from outside (process
  environment, session lookup, id generator, clock) is a field of a record that is passed
  in; everything they write (cookie store, videos table, outbound HTTP calls, console) is
  a field of a state record that is passed through.
\<close>

subsection \<open>JavaScript values\<close>

text \<open>A value that may be \<^verbatim>\<open>undefined\<close> or \<^verbatim>\<open>null\<close> is an option.\<close>

definition truthy :: "string option \<Rightarrow> bool" where
  "truthy v = (case v of None \<Rightarrow> False | Some s \<Rightarrow> s \<noteq> [])"

text \<open>\<^verbatim>\<open>x || null\<close> on a string-or-null value.\<close>

definition or_null :: "string option \<Rightarrow> string option" where
  "or_null v = (if truthy v then v else None)"

text \<open>String conversion of a possibly undefined string, as in \<^verbatim>\<open>undefined + "/s/"\<close>.\<close>

definition to_string :: "string option \<Rightarrow> string" where
  "to_string v = (case v of None \<Rightarrow> ''undefined'' | Some s \<Rightarrow> s)"

text \<open>\<^verbatim>\<open>String.prototype.split\<close> with a one-character separator.\<close>

fun js_split :: "char \<Rightarrow> string \<Rightarrow> string list" where
  "js_split sep [] = [] # []"
| "js_split sep (c # cs) =
     (if c = sep then [] # js_split sep cs
      else (case js_split sep cs of
              [] \<Rightarrow> [c] # []
            | w # ws \<Rightarrow> (c # w) # ws))"

text \<open>Array indexing: out of range is \<^verbatim>\<open>undefined\<close>.\<close>

definition at_index :: "'a list \<Rightarrow> nat \<Rightarrow> 'a option" where
  "at_index xs i = (if i < length xs then Some (xs ! i) else None)"

text \<open>Decimal rendering of a non-negative integer in a template literal.\<close>

definition digit_char :: "nat \<Rightarrow> char" where
  "digit_char d = ''0123456789'' ! d"

fun string_of_nat :: "nat \<Rightarrow> string" where
  "string_of_nat n =
     (if n < 10 then [digit_char n]
      else string_of_nat (n div 10) @ [digit_char (n mod 10)])"

declare string_of_nat.simps [simp del]

text \<open>
  JSON documents. A response or request body is kept as the document that
  \<^verbatim>\<open>JSON.stringify\<close> serialises; a property whose value is \<^verbatim>\<open>undefined\<close> is left
  out, as \<^verbatim>\<open>JSON.stringify\<close> does.
\<close>

datatype json = JString string | JBool bool | JObject "(string \<times> json) list"

definition JSON_stringify :: "(string \<times> json option) list \<Rightarrow> json" where
  "JSON_stringify props = JObject (List.map_filter (\<lambda>(k, v). map_option (Pair k) v) props)"

subsection \<open>Requests, responses, environment\<close>

text \<open>
  \<^verbatim>\<open>req.nextUrl.searchParams\<close>, \<^verbatim>\<open>req.nextUrl.origin\<close> and \<^verbatim>\<open>req.headers\<close>. Header names are
  stored in lower case, the form \<^verbatim>\<open>Headers.get\<close> looks them up in.
\<close>

record request =
  searchParams :: "(string \<times> string) list"
  nextUrl_origin :: string
  req_headers :: "(string \<times> string) list"

definition params_get :: "(string \<times> string) list \<Rightarrow> string \<Rightarrow> string option" where
  "params_get ps k = map_of ps k"

definition headers_get :: "(string \<times> string) list \<Rightarrow> string \<Rightarrow> string option" where
  "headers_get hs k = map_of hs k"

record response =
  status :: nat
  body :: "json option"
  headers :: "(string \<times> string) list"

text \<open>\<^verbatim>\<open>process.env\<close>: the six variables the file reads.\<close>

record env =
  NEXT_PUBLIC_URL :: "string option"
  CAP_AWS_REGION :: "string option"
  CAP_AWS_BUCKET :: "string option"
  NEXT_PUBLIC_IS_CAP :: "string option"
  NEXT_PUBLIC_ENVIRONMENT :: "string option"
  DUB_API_KEY :: "string option"

subsection \<open>The allow-list and the three copies of the CORS headers\<close>

definition allowedOrigins :: "env \<Rightarrow> string option list" where
  "allowedOrigins e =
     [NEXT_PUBLIC_URL e,
      Some ''http://localhost:3001'',
      Some ''tauri://localhost'',
      Some ''http://tauri.localhost'',
      Some ''https://tauri.localhost'']"

text \<open>\<^verbatim>\<open>Array.prototype.includes\<close> with a string argument.\<close>

definition includes_str :: "string option list \<Rightarrow> string \<Rightarrow> bool" where
  "includes_str xs s = List.member xs (Some s)"

text \<open>Lines 23--33: the header object of the preflight response.\<close>

definition OPTIONS_headers :: "env \<Rightarrow> string option \<Rightarrow> string \<Rightarrow> (string \<times> string) list" where
  "OPTIONS_headers e origin originalOrigin =
     [(''Access-Control-Allow-Origin'',
        (if truthy origin \<and> includes_str (allowedOrigins e) (the origin) then the origin
         else if includes_str (allowedOrigins e) originalOrigin then originalOrigin
         else ''null'')),
      (''Access-Control-Allow-Credentials'', ''true''),
      (''Access-Control-Allow-Methods'', ''GET, OPTIONS''),
      (''Access-Control-Allow-Headers'', ''Authorization, sentry-trace, baggage'')]"

text \<open>Lines 62--72: the header object of the 401 response.\<close>

definition GET_401_headers :: "env \<Rightarrow> string option \<Rightarrow> string \<Rightarrow> (string \<times> string) list" where
  "GET_401_headers e origin originalOrigin =
     [(''Access-Control-Allow-Origin'',
        (if truthy origin \<and> includes_str (allowedOrigins e) (the origin) then the origin
         else if includes_str (allowedOrigins e) originalOrigin then originalOrigin
         else ''null'')),
      (''Access-Control-Allow-Credentials'', ''true''),
      (''Access-Control-Allow-Methods'', ''GET, OPTIONS''),
      (''Access-Control-Allow-Headers'', ''Authorization, sentry-trace, baggage'')]"

text \<open>Lines 121--131: the header object of the 200 response.\<close>

definition GET_200_headers :: "env \<Rightarrow> string option \<Rightarrow> string \<Rightarrow> (string \<times> string) list" where
  "GET_200_headers e origin originalOrigin =
     [(''Access-Control-Allow-Origin'',
        (if truthy origin \<and> includes_str (allowedOrigins e) (the origin) then the origin
         else if includes_str (allowedOrigins e) originalOrigin then originalOrigin
         else ''null'')),
      (''Access-Control-Allow-Credentials'', ''true''),
      (''Access-Control-Allow-Methods'', ''GET, OPTIONS''),
      (''Access-Control-Allow-Headers'', ''Authorization, sentry-trace, baggage'')]"

subsection \<open>What the handlers write to\<close>

record cookie =
  name :: string
  cookie_value :: string
  path :: string
  sameSite :: string
  secure :: bool
  httpOnly :: bool

text \<open>
  \<^verbatim>\<open>cookies().set\<close>: the store is keyed by cookie name; setting a name that is there
  replaces its entry, a new name is added at the end.
\<close>

fun cookies_set :: "cookie \<Rightarrow> cookie list \<Rightarrow> cookie list" where
  "cookies_set c [] = [c]"
| "cookies_set c (d # ds) = (if name d = name c then c # ds else d # cookies_set c ds)"

text \<open>A row of the videos table, with the columns the insert gives.\<close>

record video =
  v_id :: string
  v_name :: string
  ownerId :: string
  awsRegion :: "string option"
  awsBucket :: "string option"

text \<open>An outbound \<^verbatim>\<open>fetch\<close> call: URL, method, headers, body.\<close>

record http_call =
  url :: string
  http_method :: string
  call_headers :: "(string \<times> string) list"
  call_body :: json

datatype log_entry =
    Log_cookies "cookie list"
  | Log_json json
  | Error_text string

record state =
  cookies :: "cookie list"
  videos :: "video list"
  outbound :: "http_call list"
  console :: "log_entry list"

subsection \<open>What the handlers read from\<close>

record user =
  userId :: string

text \<open>
  \<^verbatim>\<open>new Date()\<close> as the three readings the handler takes of it: \<^verbatim>\<open>getDate()\<close>,
  \<^verbatim>\<open>toLocaleString("default", {month: "long"})\<close> and \<^verbatim>\<open>getFullYear()\<close>.
\<close>

record date =
  getDate :: nat
  month_long :: string
  getFullYear :: nat

text \<open>
  The collaborators of one request: the session lookup \<^verbatim>\<open>getCurrentUser\<close>, which reads
  the cookie store, the identifier \<^verbatim>\<open>nanoId()\<close> returns, and the clock. The session
  lookup and the insert are awaited too; they are taken to complete, the lookup with the
  user (or null) this record gives, the insert with the row stored.
\<close>

record world =
  process_env :: env
  getCurrentUser :: "cookie list \<Rightarrow> user option"
  nanoId :: string
  new_Date :: date

text \<open>
  How the promise chain on \<^verbatim>\<open>fetch\<close> settles: \<^verbatim>\<open>fetch\<close> rejects, or it fulfils and
  \<^verbatim>\<open>response.json()\<close> rejects, or both fulfil with a parsed document.
\<close>

datatype fetch_outcome =
    Fetch_rejected string
  | Json_rejected string
  | Json_parsed json

section \<open>The handlers\<close>

subsection \<open>OPTIONS (lines 16--35)\<close>

definition OPTIONS :: "env \<Rightarrow> request \<Rightarrow> state \<Rightarrow> state \<times> response" where
  "OPTIONS e req s =
     (let params = searchParams req;
          origin = or_null (params_get params ''origin'');
          originalOrigin = nextUrl_origin req
      in (s, \<lparr>status = 200, body = None,
               headers = OPTIONS_headers e origin originalOrigin\<rparr>))"

subsection \<open>GET (lines 37--134)\<close>

text \<open>Line 38: \<^verbatim>\<open>req.headers.get("authorization")?.split(" ")[1]\<close>.\<close>

definition GET_token :: "request \<Rightarrow> string option" where
  "GET_token req =
     (case headers_get (req_headers req) ''authorization'' of
        None \<Rightarrow> None
      | Some h \<Rightarrow> at_index (js_split (CHR '' '') h) 1)"

text \<open>Lines 39--48: the cookie written when \<^verbatim>\<open>token\<close> is truthy.\<close>

definition session_cookie :: "string \<Rightarrow> cookie" where
  "session_cookie token =
     \<lparr>name = ''next-auth.session-token'', cookie_value = token, path = ''/'',
      sameSite = ''none'', secure = True, httpOnly = True\<rparr>"

definition GET_bridge :: "request \<Rightarrow> state \<Rightarrow> state" where
  "GET_bridge req s =
     (let token = GET_token req
      in if truthy token
         then s\<lparr>cookies := cookies_set (session_cookie (the token)) (cookies s)\<rparr>
         else s)"

text \<open>Lines 77--80.\<close>

definition formattedDate :: "date \<Rightarrow> string" where
  "formattedDate d =
     string_of_nat (getDate d) @ '' '' @ month_long d @ '' '' @ string_of_nat (getFullYear d)"

text \<open>Lines 90--93: the condition under which the short-link call is made.\<close>

definition is_cap_production :: "env \<Rightarrow> bool" where
  "is_cap_production e =
     (truthy (NEXT_PUBLIC_IS_CAP e) \<and> NEXT_PUBLIC_ENVIRONMENT e = Some ''production'')"

text \<open>Lines 94--106: the call handed to \<^verbatim>\<open>fetch\<close>.\<close>

definition dub_call :: "env \<Rightarrow> string \<Rightarrow> http_call" where
  "dub_call e ident =
     \<lparr>url = ''https://api.dub.co/links?projectSlug=cap'',
      http_method = ''POST'',
      call_headers =
        [(''Authorization'', ''Bearer '' @ to_string (DUB_API_KEY e)),
         (''Content-Type'', ''application/json'')],
      call_body =
        JSON_stringify
          [(''url'', Some (JString (to_string (NEXT_PUBLIC_URL e) @ ''/s/'' @ ident))),
           (''key'', Some (JString ident))]\<rparr>"

text \<open>
  The handler is an async function. At \<^verbatim>\<open>await fetch(...)\<close> (line 106) it is suspended
  until the promise chain settles; the local variables that are read after that point
  are kept in a frame.
\<close>

record frame =
  f_id :: string
  f_user :: user
  f_awsRegion :: "string option"
  f_awsBucket :: "string option"
  f_origin :: "string option"
  f_originalOrigin :: string

datatype progress = Responded response | Awaiting_fetch frame

text \<open>Lines 112--133.\<close>

definition GET_200 :: "env \<Rightarrow> frame \<Rightarrow> response" where
  "GET_200 e fr =
     \<lparr>status = 200,
      body = Some (JSON_stringify
               [(''id'', Some (JString (f_id fr))),
                (''user_id'', Some (JString (userId (f_user fr)))),
                (''aws_region'', map_option JString (f_awsRegion fr)),
                (''aws_bucket'', map_option JString (f_awsBucket fr))]),
      headers = GET_200_headers e (f_origin fr) (f_originalOrigin fr)\<rparr>"

text \<open>Lines 82--88: the row handed to \<^verbatim>\<open>db.insert(videos).values\<close>.\<close>

definition GET_row :: "world \<Rightarrow> user \<Rightarrow> video" where
  "GET_row w u =
     \<lparr>v_id = nanoId w,
      v_name = ''My Cap Recording - '' @ formattedDate (new_Date w),
      ownerId = userId u,
      awsRegion = CAP_AWS_REGION (process_env w),
      awsBucket = CAP_AWS_BUCKET (process_env w)\<rparr>"

text \<open>The locals that are live across the \<^verbatim>\<open>await\<close> of line 106.\<close>

definition GET_frame :: "world \<Rightarrow> request \<Rightarrow> user \<Rightarrow> frame" where
  "GET_frame w req u =
     \<lparr>f_id = nanoId w,
      f_user = u,
      f_awsRegion = CAP_AWS_REGION (process_env w),
      f_awsBucket = CAP_AWS_BUCKET (process_env w),
      f_origin = or_null (params_get (searchParams req) ''origin''),
      f_originalOrigin = nextUrl_origin req\<rparr>"

text \<open>Lines 38--106, up to the point where the handler either returns or is suspended.\<close>

definition GET_start :: "world \<Rightarrow> request \<Rightarrow> state \<Rightarrow> state \<times> progress" where
  "GET_start w req s =
     (let e = process_env w;
          s1 = GET_bridge req s;
          user = getCurrentUser w (cookies s1);
          params = searchParams req;
          origin = or_null (params_get params ''origin'');
          originalOrigin = nextUrl_origin req;
          s2 = s1\<lparr>console := console s1 @ [Log_cookies (cookies s1)]\<rparr>
      in case user of
           None \<Rightarrow>
             (s2, Responded
                    \<lparr>status = 401,
                     body = Some (JSON_stringify [(''error'', Some (JBool True))]),
                     headers = GET_401_headers e origin originalOrigin\<rparr>)
         | Some u \<Rightarrow>
             (let s3 = s2\<lparr>videos := videos s2 @ [GET_row w u]\<rparr>
              in if is_cap_production e
                 then (s3\<lparr>outbound := outbound s3 @ [dub_call e (nanoId w)]\<rparr>,
                       Awaiting_fetch (GET_frame w req u))
                 else (s3, Responded (GET_200 e (GET_frame w req u)))))"

text \<open>
  Lines 107--133: the chain has settled. A parsed document goes to \<^verbatim>\<open>console.log\<close>, a
  rejection of either promise to \<^verbatim>\<open>console.error\<close> through \<^verbatim>\<open>.catch\<close>; the handler then
  builds the 200 response.
\<close>

definition GET_resume :: "env \<Rightarrow> frame \<Rightarrow> fetch_outcome \<Rightarrow> state \<Rightarrow> state \<times> response" where
  "GET_resume e fr out s =
     (s\<lparr>console := console s @
          [case out of
             Json_parsed j \<Rightarrow> Log_json j
           | Fetch_rejected err \<Rightarrow> Error_text err
           | Json_rejected err \<Rightarrow> Error_text err]\<rparr>,
      GET_200 e fr)"

text \<open>The whole handler, for a call that settles as \<open>out\<close> when it is made.\<close>

definition GET :: "world \<Rightarrow> request \<Rightarrow> fetch_outcome \<Rightarrow> state \<Rightarrow> state \<times> response" where
  "GET w req out s =
     (case GET_start w req s of
        (s', Responded r) \<Rightarrow> (s', r)
      | (s', Awaiting_fetch fr) \<Rightarrow> GET_resume (process_env w) fr out s')"

text \<open>The user the session lookup of line 50 finds.\<close>

definition GET_user :: "world \<Rightarrow> request \<Rightarrow> state \<Rightarrow> user option" where
  "GET_user w req s = getCurrentUser w (cookies (GET_bridge req s))"

subsection \<open>Reading a response, and a concrete deployment\<close>

definition acao_of :: "(string \<times> string) list \<Rightarrow> string option" where
  "acao_of hs = map_of hs ''Access-Control-Allow-Origin''"

text \<open>
  A session store that knows one token, \<open>abc123\<close>, of user \<open>u1\<close>; a self-hosted and a
  hosted production environment; a request with a given \<^verbatim>\<open>Authorization\<close> header.
\<close>

definition session_of :: "cookie list \<Rightarrow> user option" where
  "session_of jar =
     (case find (\<lambda>c. name c = ''next-auth.session-token'') jar of
        None \<Rightarrow> None
      | Some c \<Rightarrow> if cookie_value c = ''abc123'' then Some \<lparr>userId = ''u1''\<rparr> else None)"

definition self_hosted_env :: env where
  "self_hosted_env =
     \<lparr>NEXT_PUBLIC_URL = Some ''http://localhost:3000'',
      CAP_AWS_REGION = Some ''us-east-1'',
      CAP_AWS_BUCKET = Some ''b1'',
      NEXT_PUBLIC_IS_CAP = None,
      NEXT_PUBLIC_ENVIRONMENT = Some ''development'',
      DUB_API_KEY = None\<rparr>"

definition production_env :: env where
  "production_env =
     \<lparr>NEXT_PUBLIC_URL = Some ''https://cap.so'',
      CAP_AWS_REGION = Some ''us-east-1'',
      CAP_AWS_BUCKET = Some ''b1'',
      NEXT_PUBLIC_IS_CAP = Some ''true'',
      NEXT_PUBLIC_ENVIRONMENT = Some ''production'',
      DUB_API_KEY = Some ''dub_key''\<rparr>"

definition world_of :: "env \<Rightarrow> world" where
  "world_of e =
     \<lparr>process_env = e,
      getCurrentUser = session_of,
      nanoId = ''V1StGXR8Z5jdHi6B'',
      new_Date = \<lparr>getDate = 3, month_long = ''November'', getFullYear = 2026\<rparr>\<rparr>"

definition request_with :: "string option \<Rightarrow> (string \<times> string) list \<Rightarrow> request" where
  "request_with origin hs =
     \<lparr>searchParams = (case origin of None \<Rightarrow> [] | Some v \<Rightarrow> [(''origin'', v)]),
      nextUrl_origin = ''https://cap.so'',
      req_headers = hs\<rparr>"

definition empty_state :: state where
  "empty_state = \<lparr>cookies = [], videos = [], outbound = [], console = []\<rparr>"

section \<open>Auxiliary facts\<close>

lemma includes_str_iff: "includes_str xs s \<longleftrightarrow> Some s \<in> set xs"
  by (simp add: includes_str_def)

lemma or_null_cases: "or_null p = None \<or> (\<exists>v. or_null p = Some v \<and> v \<noteq> [])"
  by (cases p) (auto simp: or_null_def truthy_def)

text \<open>The fields \<^const>\<open>js_split\<close> produces, in terms of the first separator.\<close>

lemma js_split_ne: "js_split c s \<noteq> []"
  by (induction s) (auto split: list.splits)

lemma js_split_nosep: "c \<notin> set s \<Longrightarrow> js_split c s = [s]"
  by (induction s) (auto split: list.splits)

lemma js_split_sep:
  "c \<in> set s \<Longrightarrow>
   js_split c s = takeWhile (\<lambda>x. x \<noteq> c) s # js_split c (tl (dropWhile (\<lambda>x. x \<noteq> c) s))"
  by (induction s) (auto split: list.splits simp: js_split_ne)

lemma js_split_hd: "hd (js_split c s) = takeWhile (\<lambda>x. x \<noteq> c) s"
  by (induction s) (auto split: list.splits simp: js_split_ne)

lemma js_split_second:
  assumes "c \<in> set s"
  shows "at_index (js_split c s) 1 =
           Some (takeWhile (\<lambda>x. x \<noteq> c) (tl (dropWhile (\<lambda>x. x \<noteq> c) s)))"
proof -
  let ?rest = "tl (dropWhile (\<lambda>x. x \<noteq> c) s)"
  obtain w ws where split_rest: "js_split c ?rest = w # ws"
    using js_split_ne [of c ?rest] by (cases "js_split c ?rest") auto
  with js_split_hd [of c ?rest] have "w = takeWhile (\<lambda>x. x \<noteq> c) ?rest"
    by simp
  with split_rest assms show ?thesis
    by (simp add: js_split_sep at_index_def)
qed

lemma js_split_second_none: "c \<notin> set s \<Longrightarrow> at_index (js_split c s) 1 = None"
  by (simp add: js_split_nosep at_index_def)

text \<open>The token bridge touches the cookie store only.\<close>

lemma GET_bridge_other [simp]:
  "videos (GET_bridge req s) = videos s"
  "outbound (GET_bridge req s) = outbound s"
  "console (GET_bridge req s) = console s"
  by (simp_all add: GET_bridge_def Let_def)

text \<open>The two ways through \<^const>\<open>GET_start\<close>.\<close>

lemma GET_start_unauthorised:
  "GET_user w req s = None \<Longrightarrow>
   GET_start w req s =
     (GET_bridge req s\<lparr>console := console s @ [Log_cookies (cookies (GET_bridge req s))]\<rparr>,
      Responded
        \<lparr>status = 401, body = Some (JObject [(''error'', JBool True)]),
         headers = GET_401_headers (process_env w)
                     (or_null (params_get (searchParams req) ''origin'')) (nextUrl_origin req)\<rparr>)"
  by (simp add: GET_start_def GET_user_def Let_def JSON_stringify_def List.map_filter_simps)

lemma GET_start_authorised:
  "GET_user w req s = Some u \<Longrightarrow>
   GET_start w req s =
     (if is_cap_production (process_env w)
      then (GET_bridge req s
              \<lparr>console := console s @ [Log_cookies (cookies (GET_bridge req s))],
               videos := videos s @ [GET_row w u],
               outbound := outbound s @ [dub_call (process_env w) (nanoId w)]\<rparr>,
            Awaiting_fetch (GET_frame w req u))
      else (GET_bridge req s
              \<lparr>console := console s @ [Log_cookies (cookies (GET_bridge req s))],
               videos := videos s @ [GET_row w u]\<rparr>,
            Responded (GET_200 (process_env w) (GET_frame w req u))))"
  by (simp add: GET_start_def GET_user_def Let_def)

lemma GET_200_body:
  "body (GET_200 e fr) =
     Some (JObject
       ([(''id'', JString (f_id fr)), (''user_id'', JString (userId (f_user fr)))] @
        (case f_awsRegion fr of None \<Rightarrow> [] | Some v \<Rightarrow> [(''aws_region'', JString v)]) @
        (case f_awsBucket fr of None \<Rightarrow> [] | Some v \<Rightarrow> [(''aws_bucket'', JString v)])))"
  by (simp add: GET_200_def JSON_stringify_def List.map_filter_simps split: option.splits)

lemma GET_200_status: "status (GET_200 e fr) = 200"
  by (simp add: GET_200_def)

lemma GET_cookies: "cookies (fst (GET w req out s)) = cookies (GET_bridge req s)"
  by (cases "GET_user w req s")
     (simp_all add: GET_def GET_start_unauthorised GET_start_authorised GET_resume_def)

lemma GET_status:
  "status (snd (GET w req out s)) = (if GET_user w req s = None then 401 else 200)"
  by (cases "GET_user w req s")
     (simp_all add: GET_def GET_start_unauthorised GET_start_authorised GET_resume_def
        GET_200_status)

lemma GET_headers:
  "headers (snd (GET w req out s)) =
     OPTIONS_headers (process_env w) (or_null (params_get (searchParams req) ''origin''))
       (nextUrl_origin req)"
  by (cases "GET_user w req s")
     (simp_all add: GET_def GET_start_unauthorised GET_start_authorised GET_resume_def
        GET_200_def GET_frame_def OPTIONS_headers_def GET_401_headers_def GET_200_headers_def)

lemma acao_in_list:
  "\<exists>a. acao_of (OPTIONS_headers e origin r) = Some a \<and>
        (Some a \<in> set (allowedOrigins e) \<or> a = ''null'')"
  by (cases origin) (auto simp: acao_of_def OPTIONS_headers_def includes_str_iff truthy_def)

lemma acao_ignores_foreign_origin:
  "Some v \<notin> set (allowedOrigins e) \<Longrightarrow>
   acao_of (OPTIONS_headers e (or_null (Some v)) r) =
     Some (if Some r \<in> set (allowedOrigins e) then r else ''null'')"
  by (auto simp: acao_of_def OPTIONS_headers_def includes_str_iff truthy_def or_null_def)

lemma GET_user_after: "GET_user w req s = getCurrentUser w (cookies (fst (GET w req out s)))"
  by (simp add: GET_cookies GET_user_def)

lemma example_user:
  "GET_user (world_of e) (request_with orig [(''authorization'', ''Bearer abc123'')]) empty_state =
     Some \<lparr>userId = ''u1''\<rparr>"
  by (simp add: GET_user_def world_of_def request_with_def empty_state_def GET_bridge_def
      GET_token_def headers_get_def at_index_def truthy_def session_cookie_def session_of_def)

section \<open>The create path\<close>

text \<open>
  C1. Whenever the session lookup finds a user, \<^verbatim>\<open>GET\<close> appends exactly one row to the
  videos table: its id is the identifier \<^verbatim>\<open>nanoId()\<close> returned, its name is
  \<open>My Cap Recording - \<close> followed by day, long month name and year of the current date,
  its owner is the user's \<open>userId\<close>. The response has status 200 and a JSON body whose
  \<open>id\<close> is that identifier and whose \<open>user_id\<close> is that \<open>userId\<close>. This holds for
  every way \<open>out\<close> the short-link call settles, where that call is made.
\<close>

theorem C1_create_record:
  assumes "GET_user w req s = Some u"
  shows "videos (fst (GET w req out s)) =
           videos s @
             [\<lparr>v_id = nanoId w,
               v_name = ''My Cap Recording - '' @ string_of_nat (getDate (new_Date w)) @ '' '' @
                          month_long (new_Date w) @ '' '' @
                          string_of_nat (getFullYear (new_Date w)),
               ownerId = userId u,
               awsRegion = CAP_AWS_REGION (process_env w),
               awsBucket = CAP_AWS_BUCKET (process_env w)\<rparr>] \<and>
         status (snd (GET w req out s)) = 200 \<and>
         (\<exists>fields. body (snd (GET w req out s)) = Some (JObject fields) \<and>
            map_of fields ''id'' = Some (JString (nanoId w)) \<and>
            map_of fields ''user_id'' = Some (JString (userId u)))"
  using assms
  by (simp add: GET_def GET_start_authorised GET_resume_def GET_200_body GET_200_status
      GET_row_def GET_frame_def formattedDate_def)

theorem C1_create_record_witness:
  "GET_user (world_of self_hosted_env)
      (request_with None [(''authorization'', ''Bearer abc123'')]) empty_state =
     Some \<lparr>userId = ''u1''\<rparr> \<and>
   videos (fst (GET (world_of self_hosted_env)
      (request_with None [(''authorization'', ''Bearer abc123'')])
      (Fetch_rejected ''down'') empty_state)) =
     [\<lparr>v_id = ''V1StGXR8Z5jdHi6B'', v_name = ''My Cap Recording - 3 November 2026'',
       ownerId = ''u1'', awsRegion = Some ''us-east-1'', awsBucket = Some ''b1''\<rparr>] \<and>
   status (snd (GET (world_of self_hosted_env)
      (request_with None [(''authorization'', ''Bearer abc123'')])
      (Fetch_rejected ''down'') empty_state)) = 200"
proof -
  note u = example_user [of self_hosted_env None]
  show ?thesis
    using u C1_create_record [OF u, of "Fetch_rejected ''down''"]
    by (simp add: world_of_def self_hosted_env_def empty_state_def string_of_nat.simps
        digit_char_def)
qed

text \<open>
  C2. Whenever the session lookup finds no user, \<^verbatim>\<open>GET\<close> answers with status 401 and
  the JSON body \<open>{"error": true}\<close> and leaves the videos table as it was. More: the
  table is left as it was exactly when no user is found, so a row is created only for a
  session that resolves.
\<close>

theorem C2_unauthorised:
  "(GET_user w req s = None \<longrightarrow>
      status (snd (GET w req out s)) = 401 \<and>
      body (snd (GET w req out s)) = Some (JObject [(''error'', JBool True)]) \<and>
      videos (fst (GET w req out s)) = videos s) \<and>
   ((videos (fst (GET w req out s)) = videos s) = (GET_user w req s = None))"
  by (cases "GET_user w req s")
     (simp_all add: GET_def GET_start_unauthorised GET_start_authorised GET_resume_def)

text \<open>
  An instance of C2: a bearer token the session store does not know.
\<close>

theorem C2_unauthorised_witness:
  "GET_user (world_of production_env)
      (request_with None [(''authorization'', ''Bearer stale'')]) empty_state = None \<and>
   status (snd (GET (world_of production_env)
      (request_with None [(''authorization'', ''Bearer stale'')]) (Json_parsed (JObject []))
      empty_state)) = 401 \<and>
   body (snd (GET (world_of production_env)
      (request_with None [(''authorization'', ''Bearer stale'')]) (Json_parsed (JObject []))
      empty_state)) = Some (JObject [(''error'', JBool True)]) \<and>
   videos (fst (GET (world_of production_env)
      (request_with None [(''authorization'', ''Bearer stale'')]) (Json_parsed (JObject []))
      empty_state)) = []"
proof -
  have u: "GET_user (world_of production_env)
      (request_with None [(''authorization'', ''Bearer stale'')]) empty_state = None"
    by (simp add: GET_user_def world_of_def request_with_def empty_state_def GET_bridge_def
        GET_token_def headers_get_def at_index_def truthy_def session_cookie_def session_of_def)
  show ?thesis
    using u C2_unauthorised [of "world_of production_env"
        "request_with None [(''authorization'', ''Bearer stale'')]" empty_state
        "Json_parsed (JObject [])"]
    by (simp add: empty_state_def)
qed

section \<open>The short-link call\<close>

text \<open>
  C5. For a request whose session resolves, the call to the short-link API is made exactly
  when both environment tests of lines 91--92 pass (\<^verbatim>\<open>NEXT_PUBLIC_IS_CAP\<close> is a non-empty
  string, \<^verbatim>\<open>NEXT_PUBLIC_ENVIRONMENT\<close> is \<open>production\<close>), and it is the one POST built from
  the new id. However the call settles, the response is the same, with status 200.
\<close>

theorem C5_short_link:
  assumes "GET_user w req s = Some u"
  shows "outbound (fst (GET w req out s)) =
           (if truthy (NEXT_PUBLIC_IS_CAP (process_env w)) \<and>
               NEXT_PUBLIC_ENVIRONMENT (process_env w) = Some ''production''
            then outbound s @ [dub_call (process_env w) (nanoId w)]
            else outbound s) \<and>
         snd (GET w req out s) = snd (GET w req out' s) \<and>
         status (snd (GET w req out s)) = 200"
  using assms
  by (simp add: GET_def GET_start_authorised GET_resume_def GET_200_status is_cap_production_def)

text \<open>
  An instance of C5 in the hosted production environment: the call is made, and a rejected
  call leaves the response what a fulfilled one gives.
\<close>

theorem C5_short_link_witness:
  "GET_user (world_of production_env)
      (request_with None [(''authorization'', ''Bearer abc123'')]) empty_state =
     Some \<lparr>userId = ''u1''\<rparr> \<and>
   outbound (fst (GET (world_of production_env)
      (request_with None [(''authorization'', ''Bearer abc123'')]) (Fetch_rejected ''timeout'')
      empty_state)) =
     [\<lparr>url = ''https://api.dub.co/links?projectSlug=cap'', http_method = ''POST'',
       call_headers = [(''Authorization'', ''Bearer dub_key''),
                       (''Content-Type'', ''application/json'')],
       call_body = JObject [(''url'', JString ''https://cap.so/s/V1StGXR8Z5jdHi6B''),
                            (''key'', JString ''V1StGXR8Z5jdHi6B'')]\<rparr>] \<and>
   snd (GET (world_of production_env)
      (request_with None [(''authorization'', ''Bearer abc123'')]) (Fetch_rejected ''timeout'')
      empty_state) =
   snd (GET (world_of production_env)
      (request_with None [(''authorization'', ''Bearer abc123'')]) (Json_parsed (JObject []))
      empty_state)"
proof -
  note u = example_user [of production_env None]
  show ?thesis
    using u C5_short_link [OF u, of "Fetch_rejected ''timeout''" "Json_parsed (JObject [])"]
    by (simp add: world_of_def production_env_def empty_state_def truthy_def dub_call_def
        to_string_def JSON_stringify_def List.map_filter_simps)
qed

text \<open>
  C4, as the specification states it: the short-link call is fire-and-forget, the response
  being built and returned without waiting for the call. The handler does otherwise: line 106
  is \<^verbatim>\<open>await fetch(...)\<close>. In the hosted production environment, once the call has been
  made the handler has not responded; it is suspended on the call.
\<close>

theorem C4_counterexample:
  "snd (GET_start (world_of production_env)
      (request_with None [(''authorization'', ''Bearer abc123'')]) empty_state) =
     Awaiting_fetch
       \<lparr>f_id = ''V1StGXR8Z5jdHi6B'', f_user = \<lparr>userId = ''u1''\<rparr>,
        f_awsRegion = Some ''us-east-1'', f_awsBucket = Some ''b1'',
        f_origin = None, f_originalOrigin = ''https://cap.so''\<rparr> \<and>
   outbound (fst (GET_start (world_of production_env)
      (request_with None [(''authorization'', ''Bearer abc123'')]) empty_state)) =
     [dub_call production_env ''V1StGXR8Z5jdHi6B'']"
  using example_user [of production_env None]
  by (simp add: GET_start_authorised is_cap_production_def GET_frame_def)
     (simp add: world_of_def production_env_def truthy_def request_with_def empty_state_def
        or_null_def params_get_def)

text \<open>
  C4, amended. When the call is made the handler is suspended on it and builds the response
  only when the promise chain has settled. Whichever way it settles, the handler then
  returns the 200 response; a parsed document is logged, a rejection is logged through
  \<^verbatim>\<open>console.error\<close> and dropped, and neither the videos table nor the list of outbound
  calls changes any more.
\<close>

theorem C4_awaited:
  assumes "GET_user w req s = Some u"
    and "truthy (NEXT_PUBLIC_IS_CAP (process_env w))"
    and "NEXT_PUBLIC_ENVIRONMENT (process_env w) = Some ''production''"
  shows "\<exists>s' fr. GET_start w req s = (s', Awaiting_fetch fr) \<and>
           outbound s' = outbound s @ [dub_call (process_env w) (nanoId w)] \<and>
           (\<forall>out.
              GET w req out s = GET_resume (process_env w) fr out s' \<and>
              snd (GET_resume (process_env w) fr out s') = GET_200 (process_env w) fr \<and>
              status (snd (GET_resume (process_env w) fr out s')) = 200 \<and>
              videos (fst (GET_resume (process_env w) fr out s')) = videos s' \<and>
              outbound (fst (GET_resume (process_env w) fr out s')) = outbound s' \<and>
              console (fst (GET_resume (process_env w) fr out s')) =
                console s' @
                  [case out of
                     Json_parsed j \<Rightarrow> Log_json j
                   | Fetch_rejected err \<Rightarrow> Error_text err
                   | Json_rejected err \<Rightarrow> Error_text err])"
  using assms
  by (simp add: GET_def GET_start_authorised GET_resume_def GET_200_status is_cap_production_def)

text \<open>
  An instance of the amended C4: a connection reset is logged and the response is still 200.
\<close>

theorem C4_awaited_witness:
  "GET_user (world_of production_env)
      (request_with (Some ''tauri://localhost'') [(''authorization'', ''Bearer abc123'')])
      empty_state = Some \<lparr>userId = ''u1''\<rparr> \<and>
   truthy (NEXT_PUBLIC_IS_CAP (process_env (world_of production_env))) \<and>
   NEXT_PUBLIC_ENVIRONMENT (process_env (world_of production_env)) = Some ''production'' \<and>
   (\<exists>s' fr. GET_start (world_of production_env)
      (request_with (Some ''tauri://localhost'') [(''authorization'', ''Bearer abc123'')])
      empty_state = (s', Awaiting_fetch fr) \<and>
      console (fst (GET_resume production_env fr (Fetch_rejected ''ECONNRESET'') s')) =
        console s' @ [Error_text ''ECONNRESET''] \<and>
      status (snd (GET_resume production_env fr (Fetch_rejected ''ECONNRESET'') s')) = 200)"
proof -
  note u = example_user [of production_env "Some ''tauri://localhost''"]
  have f1: "truthy (NEXT_PUBLIC_IS_CAP (process_env (world_of production_env)))"
    by (simp add: world_of_def production_env_def truthy_def)
  have f2: "NEXT_PUBLIC_ENVIRONMENT (process_env (world_of production_env)) = Some ''production''"
    by (simp add: world_of_def production_env_def)
  from C4_awaited [OF u f1 f2] obtain s' fr where
    st: "GET_start (world_of production_env)
      (request_with (Some ''tauri://localhost'') [(''authorization'', ''Bearer abc123'')])
      empty_state = (s', Awaiting_fetch fr)"
    and res: "\<And>out. console (fst (GET_resume (process_env (world_of production_env)) fr out s')) =
                console s' @
                  [case out of
                     Json_parsed j \<Rightarrow> Log_json j
                   | Fetch_rejected err \<Rightarrow> Error_text err
                   | Json_rejected err \<Rightarrow> Error_text err]"
    and ok: "\<And>out. status (snd (GET_resume (process_env (world_of production_env)) fr out s')) = 200"
    by blast
  have pe: "process_env (world_of production_env) = production_env"
    by (simp add: world_of_def)
  from res [of "Fetch_rejected ''ECONNRESET''"] ok [of "Fetch_rejected ''ECONNRESET''"]
  have "console (fst (GET_resume production_env fr (Fetch_rejected ''ECONNRESET'') s')) =
        console s' @ [Error_text ''ECONNRESET''] \<and>
      status (snd (GET_resume production_env fr (Fetch_rejected ''ECONNRESET'') s')) = 200"
    by (simp add: pe)
  with u f1 f2 st show ?thesis by blast
qed

section \<open>The token bridge\<close>

text \<open>
  C6, as the specification states it: the token is the second whitespace-delimited token
  after \<open>Bearer\<close>, and no cookie is written when there is none. The handler splits at
  single space characters and does not look at the first field: a header whose token follows
  \<open>Bearer\<close> after a tab writes no cookie, and a \<open>Basic\<close> header, which carries no bearer
  token, writes one.
\<close>

theorem C6_counterexample:
  "cookies (fst (GET (world_of self_hosted_env)
      (request_with None [(''authorization'', ''Bearer'' @ [CHR 0x09] @ ''abc123'')])
      (Json_parsed (JObject [])) empty_state)) = [] \<and>
   cookies (fst (GET (world_of self_hosted_env)
      (request_with None [(''authorization'', ''Basic abc123'')])
      (Json_parsed (JObject [])) empty_state)) =
     [\<lparr>name = ''next-auth.session-token'', cookie_value = ''abc123'', path = ''/'',
       sameSite = ''none'', secure = True, httpOnly = True\<rparr>]"
  by (simp add: GET_cookies GET_bridge_def GET_token_def request_with_def headers_get_def
      at_index_def truthy_def session_cookie_def empty_state_def)

text \<open>
  C6, amended. The cookie store after \<^verbatim>\<open>GET\<close> is the store before it with the cookie
  \<open>next-auth.session-token\<close> set to the second field of the \<^verbatim>\<open>Authorization\<close> header,
  split at single spaces, with path \<open>/\<close>, \<open>SameSite=None\<close>, \<open>Secure\<close> and \<open>HttpOnly\<close>,
  when that field exists and is not empty; otherwise the store is unchanged. The session
  lookup is made on the store as written: the response is 401 exactly when the lookup on it
  finds no user, and 200 exactly when it finds one.
\<close>

theorem C6_token_bridge:
  "cookies (fst (GET w req out s)) =
     (case headers_get (req_headers req) ''authorization'' of
        None \<Rightarrow> cookies s
      | Some h \<Rightarrow>
          (case at_index (js_split (CHR '' '') h) 1 of
             None \<Rightarrow> cookies s
           | Some t \<Rightarrow>
               if t = [] then cookies s
               else cookies_set
                      \<lparr>name = ''next-auth.session-token'', cookie_value = t, path = ''/'',
                       sameSite = ''none'', secure = True, httpOnly = True\<rparr>
                      (cookies s))) \<and>
   (status (snd (GET w req out s)) = 401) =
     (getCurrentUser w (cookies (fst (GET w req out s))) = None) \<and>
   (status (snd (GET w req out s)) = 200) =
     (\<exists>u. getCurrentUser w (cookies (fst (GET w req out s))) = Some u)"
proof -
  have "cookies (GET_bridge req s) =
     (case headers_get (req_headers req) ''authorization'' of
        None \<Rightarrow> cookies s
      | Some h \<Rightarrow>
          (case at_index (js_split (CHR '' '') h) 1 of
             None \<Rightarrow> cookies s
           | Some t \<Rightarrow>
               if t = [] then cookies s
               else cookies_set
                      \<lparr>name = ''next-auth.session-token'', cookie_value = t, path = ''/'',
                       sameSite = ''none'', secure = True, httpOnly = True\<rparr>
                      (cookies s)))"
    by (simp add: GET_bridge_def GET_token_def Let_def truthy_def session_cookie_def
        split: option.splits)
  then show ?thesis
    using GET_user_after [of w req s out]
    by (auto simp: GET_cookies GET_status)
qed

text \<open>
  C10, as stated: for every header that contains a space, the text between the first space
  and the next one becomes the cookie value. With two spaces after the first word that text
  is empty, the guard \<^verbatim>\<open>if (token)\<close> fails and no cookie is written.
\<close>

theorem C10_counterexample:
  "CHR '' '' \<in> set ''Bearer  abc123'' \<and>
   js_split (CHR '' '') ''Bearer  abc123'' = [''Bearer'', [], ''abc123''] \<and>
   cookies (fst (GET (world_of self_hosted_env)
      (request_with None [(''authorization'', ''Bearer  abc123'')])
      (Json_parsed (JObject [])) empty_state)) = []"
  by (simp add: GET_cookies GET_bridge_def GET_token_def request_with_def headers_get_def
      at_index_def truthy_def empty_state_def)

text \<open>
  C10, amended. For every \<^verbatim>\<open>Authorization\<close> header, whatever its first word: if it
  contains a space and the text between the first space and the next one is not empty, the
  session cookie is set to that text; if it contains no space, or that text is empty, no
  cookie is written. In both cases the handler goes on to the session lookup, which
  decides between 401 and the create path.
\<close>

theorem C10_scheme_unchecked:
  assumes "headers_get (req_headers req) ''authorization'' = Some h"
  shows "cookies (fst (GET w req out s)) =
           (if CHR '' '' \<in> set h \<and>
               takeWhile (\<lambda>c. c \<noteq> CHR '' '') (tl (dropWhile (\<lambda>c. c \<noteq> CHR '' '') h)) \<noteq> []
            then cookies_set
                   \<lparr>name = ''next-auth.session-token'',
                    cookie_value = takeWhile (\<lambda>c. c \<noteq> CHR '' '') (tl (dropWhile (\<lambda>c. c \<noteq> CHR '' '') h)),
                    path = ''/'', sameSite = ''none'', secure = True, httpOnly = True\<rparr>
                   (cookies s)
            else cookies s) \<and>
         (status (snd (GET w req out s)) = 401) =
           (getCurrentUser w (cookies (fst (GET w req out s))) = None)"
proof -
  have "cookies (GET_bridge req s) =
           (if CHR '' '' \<in> set h \<and>
               takeWhile (\<lambda>c. c \<noteq> CHR '' '') (tl (dropWhile (\<lambda>c. c \<noteq> CHR '' '') h)) \<noteq> []
            then cookies_set
                   \<lparr>name = ''next-auth.session-token'',
                    cookie_value = takeWhile (\<lambda>c. c \<noteq> CHR '' '') (tl (dropWhile (\<lambda>c. c \<noteq> CHR '' '') h)),
                    path = ''/'', sameSite = ''none'', secure = True, httpOnly = True\<rparr>
                   (cookies s)
            else cookies s)"
  proof (cases "CHR '' '' \<in> set h")
    case True
    from js_split_second [OF True] assms show ?thesis
      by (simp add: GET_bridge_def GET_token_def Let_def truthy_def session_cookie_def True)
  next
    case False
    from js_split_second_none [OF False] assms show ?thesis
      by (simp add: GET_bridge_def GET_token_def Let_def truthy_def False)
  qed
  then show ?thesis
    using GET_user_after [of w req s out]
    by (auto simp: GET_cookies GET_status)
qed

text \<open>
  An instance of the amended C10: the scheme word is \<open>Token\<close>, the cookie is written all
  the same, and the session resolves.
\<close>

theorem C10_scheme_unchecked_witness:
  "headers_get (req_headers (request_with None [(''authorization'', ''Token abc123 x'')]))
      ''authorization'' = Some ''Token abc123 x'' \<and>
   cookies (fst (GET (world_of self_hosted_env)
      (request_with None [(''authorization'', ''Token abc123 x'')])
      (Json_parsed (JObject [])) empty_state)) =
     [\<lparr>name = ''next-auth.session-token'', cookie_value = ''abc123'', path = ''/'',
       sameSite = ''none'', secure = True, httpOnly = True\<rparr>] \<and>
   status (snd (GET (world_of self_hosted_env)
      (request_with None [(''authorization'', ''Token abc123 x'')])
      (Json_parsed (JObject [])) empty_state)) \<noteq> 401"
proof -
  let ?w = "world_of self_hosted_env"
  let ?req = "request_with None [(''authorization'', ''Token abc123 x'')]"
  let ?out = "Json_parsed (JObject [])"
  have h: "headers_get (req_headers ?req) ''authorization'' = Some ''Token abc123 x''"
    by (simp add: request_with_def headers_get_def)
  note bridge = C10_scheme_unchecked [OF h, of ?w ?out empty_state]
  from bridge have jar: "cookies (fst (GET ?w ?req ?out empty_state)) =
     [\<lparr>name = ''next-auth.session-token'', cookie_value = ''abc123'', path = ''/'',
       sameSite = ''none'', secure = True, httpOnly = True\<rparr>]"
    by (simp add: empty_state_def)
  have "getCurrentUser ?w (cookies (fst (GET ?w ?req ?out empty_state))) \<noteq> None"
    unfolding jar by (simp add: world_of_def session_of_def)
  with bridge have "status (snd (GET ?w ?req ?out empty_state)) \<noteq> 401"
    by blast
  with h jar show ?thesis by blast
qed

section \<open>CORS headers\<close>

text \<open>
  C3. With \<open>origin\<close> the value of line 18 (the query parameter, or null when it is absent or
  empty) and \<open>r\<close> the request's own origin, the \<^verbatim>\<open>Access-Control-Allow-Origin\<close> value is
  \<open>origin\<close> when it is present and on the allow-list, else \<open>r\<close> when \<open>r\<close> is on the
  allow-list, else the string \<open>null\<close>; the two copies in \<^verbatim>\<open>GET\<close> give the same value.
\<close>

theorem C3_cors_resolver:
  "acao_of (OPTIONS_headers e (or_null p) r) =
     Some (case or_null p of
             Some v \<Rightarrow> if Some v \<in> set (allowedOrigins e) then v
                       else if Some r \<in> set (allowedOrigins e) then r else ''null''
           | None \<Rightarrow> if Some r \<in> set (allowedOrigins e) then r else ''null'') \<and>
   acao_of (GET_401_headers e (or_null p) r) = acao_of (OPTIONS_headers e (or_null p) r) \<and>
   acao_of (GET_200_headers e (or_null p) r) = acao_of (OPTIONS_headers e (or_null p) r)"
  using or_null_cases [of p]
  by (auto simp: acao_of_def OPTIONS_headers_def GET_401_headers_def GET_200_headers_def
      includes_str_iff truthy_def)

text \<open>
  C7. The three header objects (preflight, 401, 200) are equal for every origin and request
  origin, and the response of \<^verbatim>\<open>GET\<close>, whichever of the two it is, carries exactly the
  headers the preflight response carries for the same request and environment.
\<close>

theorem C7_three_sites_agree:
  "OPTIONS_headers e origin r = GET_401_headers e origin r \<and>
   GET_401_headers e origin r = GET_200_headers e origin r \<and>
   headers (snd (GET w req out s)) = headers (snd (OPTIONS (process_env w) req s'))"
proof -
  have sites: "OPTIONS_headers e origin r = GET_401_headers e origin r"
    "GET_401_headers e origin r = GET_200_headers e origin r" for e origin r
    by (simp_all add: OPTIONS_headers_def GET_401_headers_def GET_200_headers_def)
  have "headers (snd (GET w req out s)) = headers (snd (OPTIONS (process_env w) req s'))"
    by (cases "GET_user w req s")
       (simp_all add: GET_def GET_start_unauthorised GET_start_authorised GET_resume_def
          GET_200_def GET_frame_def OPTIONS_def Let_def sites)
  with sites show ?thesis by simp
qed

text \<open>
  C8. \<^verbatim>\<open>OPTIONS\<close> returns status 200, no body and the four CORS headers, the first resolved
  as in C3. It takes no session lookup, so the answer cannot depend on authentication, and
  it leaves cookie store, videos table, outbound calls and console as they were.
\<close>

theorem C8_preflight:
  "fst (OPTIONS e req s) = s \<and>
   status (snd (OPTIONS e req s)) = 200 \<and>
   body (snd (OPTIONS e req s)) = None \<and>
   headers (snd (OPTIONS e req s)) =
     [(''Access-Control-Allow-Origin'',
        (case or_null (params_get (searchParams req) ''origin'') of
           Some v \<Rightarrow> if Some v \<in> set (allowedOrigins e) then v
                     else if Some (nextUrl_origin req) \<in> set (allowedOrigins e)
                          then nextUrl_origin req else ''null''
         | None \<Rightarrow> if Some (nextUrl_origin req) \<in> set (allowedOrigins e)
                   then nextUrl_origin req else ''null'')),
      (''Access-Control-Allow-Credentials'', ''true''),
      (''Access-Control-Allow-Methods'', ''GET, OPTIONS''),
      (''Access-Control-Allow-Headers'', ''Authorization, sentry-trace, baggage'')]"
  using or_null_cases [of "params_get (searchParams req) ''origin''"]
  by (auto simp: OPTIONS_def OPTIONS_headers_def Let_def includes_str_iff truthy_def)

text \<open>
  C9. On every response path the \<^verbatim>\<open>Access-Control-Allow-Origin\<close> value is an element of
  the allow-list or the string \<open>null\<close>. An \<open>origin\<close> parameter that is not on the allow-list
  has no part in it: the value is then decided by the request's own origin alone.
\<close>

theorem C9_allow_origin_invariant:
  "\<exists>a. acao_of (headers (snd (OPTIONS (process_env w) req s))) = Some a \<and>
        acao_of (headers (snd (GET w req out s))) = Some a \<and>
        (Some a \<in> set (allowedOrigins (process_env w)) \<or> a = ''null'') \<and>
        (\<forall>v. params_get (searchParams req) ''origin'' = Some v \<and>
              Some v \<notin> set (allowedOrigins (process_env w)) \<longrightarrow>
              a = (if Some (nextUrl_origin req) \<in> set (allowedOrigins (process_env w))
                   then nextUrl_origin req else ''null''))"
proof -
  let ?e = "process_env w"
  let ?p = "params_get (searchParams req) ''origin''"
  let ?r = "nextUrl_origin req"
  obtain a where a: "acao_of (OPTIONS_headers ?e (or_null ?p) ?r) = Some a"
    and mem: "Some a \<in> set (allowedOrigins ?e) \<or> a = ''null''"
    using acao_in_list [of ?e "or_null ?p" ?r] by blast
  have "acao_of (headers (snd (OPTIONS ?e req s))) = Some a"
    using a by (simp add: OPTIONS_def Let_def)
  moreover have "acao_of (headers (snd (GET w req out s))) = Some a"
    using a by (simp add: GET_headers)
  moreover have "a = (if Some ?r \<in> set (allowedOrigins ?e) then ?r else ''null'')"
    if "?p = Some v" "Some v \<notin> set (allowedOrigins ?e)" for v
    using acao_ignores_foreign_origin [OF that(2), of ?r] a that(1) by simp
  ultimately show ?thesis using mem by blast
qed

text \<open>
  An instance of C9: a foreign origin is answered with \<open>null\<close>.
\<close>

theorem C9_allow_origin_invariant_witness:
  "params_get (searchParams (request_with (Some ''https://evil.example'') [])) ''origin'' =
     Some ''https://evil.example'' \<and>
   Some ''https://evil.example'' \<notin> set (allowedOrigins (process_env (world_of self_hosted_env))) \<and>
   acao_of (headers (snd (GET (world_of self_hosted_env)
     (request_with (Some ''https://evil.example'') []) (Json_parsed (JObject [])) empty_state))) =
     Some ''null''"
proof -
  let ?w = "world_of self_hosted_env"
  let ?req = "request_with (Some ''https://evil.example'') []"
  have p: "params_get (searchParams ?req) ''origin'' = Some ''https://evil.example''"
    by (simp add: request_with_def params_get_def)
  have n: "Some ''https://evil.example'' \<notin> set (allowedOrigins (process_env ?w))"
    by (simp add: world_of_def self_hosted_env_def allowedOrigins_def)
  have r: "Some (nextUrl_origin ?req) \<notin> set (allowedOrigins (process_env ?w))"
    by (simp add: world_of_def self_hosted_env_def allowedOrigins_def request_with_def)
  from C9_allow_origin_invariant [of ?w ?req empty_state "Json_parsed (JObject [])"]
  obtain a where "acao_of (headers (snd (GET ?w ?req (Json_parsed (JObject [])) empty_state))) = Some a"
    and "\<forall>v. params_get (searchParams ?req) ''origin'' = Some v \<and>
              Some v \<notin> set (allowedOrigins (process_env ?w)) \<longrightarrow>
              a = (if Some (nextUrl_origin ?req) \<in> set (allowedOrigins (process_env ?w))
                   then nextUrl_origin ?req else ''null'')"
    by blast
  with p n r show ?thesis by simp
qed

end
